theory Spec2Isabelle
  imports Main "HOL-Library.Sublist"
begin

section \<open>Data model (src/types.ts)\<close>

text \<open>
  The interfaces of \<^verbatim>\<open>src/types.ts\<close> as records. A field keeps its source name when only
  one interface has it; a name shared by several interfaces (\<^verbatim>\<open>id\<close>, \<^verbatim>\<open>status\<close>,
  \<^verbatim>\<open>price\<close>, \<^verbatim>\<open>sellerId\<close>, \<^verbatim>\<open>senderId\<close>, \<^verbatim>\<open>content\<close>, \<^verbatim>\<open>createdAt\<close>, \<^verbatim>\<open>name\<close>)
  is written \<open>Interface_field\<close>. An optional field \<^verbatim>\<open>f?: T\<close> is a \<open>T option\<close>.
  A TypeScript \<^verbatim>\<open>number\<close> is modelled as \<open>int\<close>: stock counts are whole numbers and the
  only arithmetic the modelled code does is \<^verbatim>\<open>quantity - 1\<close>; a price is only copied.
\<close>

datatype UserRole = admin | premium | buyer
datatype UserStatus = active | suspended

record User =
  User_id :: string
  email :: string
  User_name :: string
  role :: UserRole
  User_status :: UserStatus
  avatarUrl :: "string option"
  User_createdAt :: string

datatype PixKeyType = CPF | CNPJ | EMAIL | PHONE | RANDOM
datatype DeliveryMethod = shipping | pickup

record ShippingAddress =
  street :: string
  number :: string
  complement :: "string option"
  neighborhood :: string
  ShippingAddress_city :: string
  state :: string
  zipCode :: string

record Product =
  Product_id :: string
  title :: string
  description :: string
  Product_price :: int
  imageUrl :: string
  imagePath :: "string option"
  city :: string
  pixKey :: string
  pixKeyType :: PixKeyType
  quantity :: int
  deliveryMethod :: DeliveryMethod
  Product_sellerId :: string
  sellerName :: string
  sellerAvatar :: "string option"
  Product_createdAt :: string

datatype OrderStatus = paid | delivered

record Order =
  Order_id :: string
  buyerId :: string
  buyerName :: "string option"
  Order_sellerId :: string
  productId :: string
  productTitle :: string
  Order_price :: int
  shippingAddress :: "ShippingAddress option"
  Order_status :: OrderStatus
  Order_createdAt :: string

record ChatMessage =
  ChatMessage_id :: string
  orderId :: string
  ChatMessage_senderId :: string
  ChatMessage_content :: string
  ChatMessage_createdAt :: string

record DirectMessage =
  DirectMessage_id :: string
  DirectMessage_senderId :: string
  receiverId :: string
  DirectMessage_content :: string
  DirectMessage_createdAt :: string

section \<open>The external services, as seen from src/App.tsx\<close>

text \<open>
  \<^verbatim>\<open>./services/supabase\<close> and \<^verbatim>\<open>./services/eyo\<close> are modules of the repository that
  \<^verbatim>\<open>App.tsx\<close> imports and calls; their code lies outside \<^verbatim>\<open>src/\<close>. A handler of
  \<^verbatim>\<open>App.tsx\<close> is therefore modelled as a
  function of what the services answer: every awaited call either resolves with a value or
  rejects (the \<^verbatim>\<open>await\<close> throws; \<open>Throws m\<close> carries the \<^verbatim>\<open>message\<close> of what was thrown),
  and the handler's result lists the calls it issued, in order, with their arguments.
\<close>

datatype 'a outcome = Returns 'a | Throws string

text \<open>The shape of the answers, as \<^verbatim>\<open>confirmPayment\<close> reads them.\<close>

record PaymentData =
  PaymentData_id :: string
  qrcodeUrl :: string
  copyPaste :: "string option"

record PaymentStatus =
  PaymentStatus_status :: string

record StatusRes =
  success :: bool
  StatusRes_data :: "PaymentStatus option"

text \<open>The argument of \<^verbatim>\<open>supabaseService.db.orders.create\<close> (App.tsx, lines 699-706).\<close>

record OrderDraft =
  OrderDraft_buyerId :: string
  OrderDraft_sellerId :: string
  OrderDraft_productId :: string
  OrderDraft_productTitle :: string
  OrderDraft_price :: int
  OrderDraft_status :: OrderStatus

text \<open>\<^verbatim>\<open>SupabaseResponse<Order>\<close> of types.ts: \<^verbatim>\<open>{ data: T | null; error: string | null }\<close>.\<close>

record OrderRes =
  OrderRes_data :: "Order option"
  OrderRes_error :: "string option"

record services =
  getPaymentStatus :: "string \<Rightarrow> StatusRes outcome"
  orders_create :: "OrderDraft \<Rightarrow> OrderRes outcome"
  products_updateStock :: "string \<Rightarrow> int \<Rightarrow> unit outcome"
  createWithdraw :: "int \<Rightarrow> string \<Rightarrow> PixKeyType \<Rightarrow> unit outcome"

datatype call =
    GetPaymentStatus string
  | OrdersCreate OrderDraft
  | UpdateStock string int
  | CreateWithdraw int string PixKeyType

section \<open>ProductDetails.confirmPayment (App.tsx, lines 690-726)\<close>

text \<open>
  The three \<^verbatim>\<open>alert\<close> texts of \<^verbatim>\<open>confirmPayment\<close>:
  \<^item> \<open>PaymentConfirmed\<close> is \<^verbatim>\<open>"Pagamento confirmado! Pedido criado."\<close>;
  \<^item> \<open>NotYetConfirmed s\<close> is \<^verbatim>\<open>"Pagamento ainda nao confirmado. Status: " + statusRes.data?.status\<close>,
    where \<open>s = None\<close> when \<^verbatim>\<open>statusRes.data\<close> is missing (the text then ends in \<^verbatim>\<open>undefined\<close>);
  \<^item> \<open>VerifyError m\<close> is \<^verbatim>\<open>"Erro ao verificar: " + e.message\<close>.
\<close>

datatype alert = PaymentConfirmed | NotYetConfirmed "string option" | VerifyError string

text \<open>The React state of \<^verbatim>\<open>ProductDetails\<close> that \<^verbatim>\<open>confirmPayment\<close> reads or writes.\<close>

record ProductDetails_state =
  product :: "Product option"
  showPayment :: bool
  paymentData :: "PaymentData option"
  verifying :: bool

record confirm_result =
  calls :: "call list"
  alerted :: "alert option"
  navigated :: "string option"
  after :: ProductDetails_state

text \<open>JavaScript truthiness of a \<^verbatim>\<open>string | null\<close>: \<^verbatim>\<open>null\<close> and \<^verbatim>\<open>""\<close> are falsy.\<close>

definition truthy :: "string option \<Rightarrow> bool" where
  "truthy e = (case e of None \<Rightarrow> False | Some s \<Rightarrow> s \<noteq> [])"

text \<open>\<^verbatim>\<open>error || d\<close> for a \<^verbatim>\<open>string | null\<close> and a string \<^verbatim>\<open>d\<close>.\<close>

definition or_else :: "string option \<Rightarrow> string \<Rightarrow> string" where
  "or_else e d = (case e of None \<Rightarrow> d | Some s \<Rightarrow> if s = [] then d else s)"

text \<open>\<^verbatim>\<open>statusRes.data?.status\<close>\<close>

definition observed_status :: "StatusRes \<Rightarrow> string option" where
  "observed_status r = map_option PaymentStatus_status (StatusRes_data r)"

text \<open>The test of line 697.\<close>

definition status_ok :: "StatusRes \<Rightarrow> bool" where
  "status_ok r =
     (success r \<and> (observed_status r = Some ''COMPLETED'' \<or> observed_status r = Some ''ACTIVE''))"

text \<open>The object literal of lines 699-706.\<close>

definition order_draft :: "User \<Rightarrow> Product \<Rightarrow> OrderDraft" where
  "order_draft u p =
     \<lparr> OrderDraft_buyerId = User_id u,
       OrderDraft_sellerId = Product_sellerId p,
       OrderDraft_productId = Product_id p,
       OrderDraft_productTitle = title p,
       OrderDraft_price = Product_price p,
       OrderDraft_status = paid \<rparr>"

text \<open>
  What the \<^verbatim>\<open>catch\<close> and \<^verbatim>\<open>finally\<close> blocks leave behind when the \<^verbatim>\<open>try\<close> block threw
  after issuing the calls \<open>cs\<close>.
\<close>

definition caught :: "ProductDetails_state \<Rightarrow> call list \<Rightarrow> string \<Rightarrow> confirm_result" where
  "caught st cs m =
     \<lparr> calls = cs, alerted = Some (VerifyError m), navigated = None,
       after = st\<lparr>verifying := False\<rparr> \<rparr>"

text \<open>Lines 713-717: the payout, then the success alert and the navigation.\<close>

definition withdraw_step ::
  "services \<Rightarrow> ProductDetails_state \<Rightarrow> Product \<Rightarrow> call list \<Rightarrow> confirm_result" where
  "withdraw_step sv st p cs =
     (let cs' = cs @ [CreateWithdraw (Product_price p) (pixKey p) (pixKeyType p)] in
      case createWithdraw sv (Product_price p) (pixKey p) (pixKeyType p) of
        Throws m \<Rightarrow> caught st cs' m
      | Returns _ \<Rightarrow>
          \<lparr> calls = cs', alerted = Some PaymentConfirmed, navigated = Some ''/feed'',
            after = st\<lparr>verifying := False\<rparr> \<rparr>)"

text \<open>Lines 710-711: the stock write, whose resolved value is not looked at.\<close>

definition stock_step ::
  "services \<Rightarrow> ProductDetails_state \<Rightarrow> Product \<Rightarrow> call list \<Rightarrow> confirm_result" where
  "stock_step sv st p cs =
     (let cs' = cs @ [UpdateStock (Product_id p) (quantity p - 1)] in
      case products_updateStock sv (Product_id p) (quantity p - 1) of
        Throws m \<Rightarrow> caught st cs' m
      | Returns _ \<Rightarrow> withdraw_step sv st p cs')"

text \<open>
  Lines 698-708: the order record. \<^verbatim>\<open>if (error || !order) throw new Error(error || 'Failed to create order')\<close>.
\<close>

definition order_step ::
  "services \<Rightarrow> ProductDetails_state \<Rightarrow> User \<Rightarrow> Product \<Rightarrow> call list \<Rightarrow> confirm_result" where
  "order_step sv st u p cs =
     (let cs' = cs @ [OrdersCreate (order_draft u p)] in
      case orders_create sv (order_draft u p) of
        Throws m \<Rightarrow> caught st cs' m
      | Returns r \<Rightarrow>
          if truthy (OrderRes_error r) \<or> OrderRes_data r = None
          then caught st cs' (or_else (OrderRes_error r) ''Failed to create order'')
          else stock_step sv st p cs')"

definition confirmPayment ::
  "services \<Rightarrow> User option \<Rightarrow> ProductDetails_state \<Rightarrow> confirm_result" where
  "confirmPayment sv user st =
     (case (paymentData st, product st, user) of
        (Some pd, Some p, Some u) \<Rightarrow>
          (let cs = [GetPaymentStatus (PaymentData_id pd)] in
           case getPaymentStatus sv (PaymentData_id pd) of
             Throws m \<Rightarrow> caught st cs m
           | Returns statusRes \<Rightarrow>
               if status_ok statusRes then order_step sv st u p cs
               else \<lparr> calls = cs, alerted = Some (NotYetConfirmed (observed_status statusRes)),
                      navigated = None, after = st\<lparr>verifying := False\<rparr> \<rparr>)
      | _ \<Rightarrow> \<lparr> calls = [], alerted = None, navigated = None, after = st \<rparr>)"


section \<open>ChatModal: the order conversation (App.tsx, lines 95-214)\<close>

text \<open>
  A row of the \<^verbatim>\<open>messages\<close> table as the change feed delivers it (\<^verbatim>\<open>payload.new\<close>,
  \<^verbatim>\<open>payload.old\<close>), with the column names the handler reads.
\<close>

record message_row =
  row_id :: string
  row_order_id :: string
  row_sender_id :: string
  row_content :: string
  row_created_at :: string

text \<open>
  The payload of a \<^verbatim>\<open>postgres_changes\<close> event, by \<^verbatim>\<open>payload.eventType\<close>: an insert carries
  the new row, a delete the old row, an update both (old, then new).
\<close>

datatype chat_payload = INSERT message_row | UPDATE message_row message_row | DELETE message_row

text \<open>The subscription callback of lines 112-125, applied to the \<^verbatim>\<open>messages\<close> state.\<close>

fun ChatModal_on_payload :: "chat_payload \<Rightarrow> ChatMessage list \<Rightarrow> ChatMessage list" where
  "ChatModal_on_payload (INSERT new) prev =
     prev @ [\<lparr> ChatMessage_id = row_id new, orderId = row_order_id new,
                ChatMessage_senderId = row_sender_id new, ChatMessage_content = row_content new,
                ChatMessage_createdAt = row_created_at new \<rparr>]"
| "ChatModal_on_payload (DELETE old) prev = filter (\<lambda>m. ChatMessage_id m \<noteq> row_id old) prev"
| "ChatModal_on_payload (UPDATE old new) prev = prev"

text \<open>A feed of payloads, handled in arrival order.\<close>

definition ChatModal_feed :: "chat_payload list \<Rightarrow> ChatMessage list \<Rightarrow> ChatMessage list" where
  "ChatModal_feed ps log = foldl (\<lambda>l p. ChatModal_on_payload p l) log ps"

text \<open>The messages of a log that belong to an order.\<close>

definition of_order :: "string \<Rightarrow> ChatMessage list \<Rightarrow> ChatMessage list" where
  "of_order oid log = filter (\<lambda>m. orderId m = oid) log"

text \<open>Line 155: \<^verbatim>\<open>const isSeller = user?.id === order.sellerId\<close>.\<close>

definition isSeller :: "User option \<Rightarrow> Order \<Rightarrow> bool" where
  "isSeller user order = (case user of None \<Rightarrow> False | Some u \<Rightarrow> User_id u = Order_sellerId order)"

text \<open>
  \<^verbatim>\<open>handleMarkDelivered\<close> (lines 147-153). \<open>confirmed\<close> is the answer of \<^verbatim>\<open>window.confirm\<close>;
  \<open>markDelivered\<close> is the answer of \<^verbatim>\<open>supabaseService.db.orders.markDelivered\<close>. The result
  lists the order ids \<^verbatim>\<open>markDelivered\<close> was called with, whether \<^verbatim>\<open>onClose\<close> was called, and
  the final \<^verbatim>\<open>isClosingOrder\<close> (there is no \<^verbatim>\<open>try\<close>: a rejected call leaves it set).
\<close>

record delivered_result =
  markDelivered_calls :: "string list"
  onClose_called :: bool
  isClosingOrder :: bool

definition handleMarkDelivered ::
  "(string \<Rightarrow> unit outcome) \<Rightarrow> bool \<Rightarrow> Order \<Rightarrow> bool \<Rightarrow> delivered_result" where
  "handleMarkDelivered markDelivered confirmed order closing =
     (if \<not> confirmed
      then \<lparr> markDelivered_calls = [], onClose_called = False, isClosingOrder = closing \<rparr>
      else case markDelivered (Order_id order) of
             Returns _ \<Rightarrow>
               \<lparr> markDelivered_calls = [Order_id order], onClose_called = True,
                 isClosingOrder = False \<rparr>
           | Throws _ \<Rightarrow>
               \<lparr> markDelivered_calls = [Order_id order], onClose_called = False,
                 isClosingOrder = True \<rparr>)"

text \<open>
  Lines 171-179: the button that runs \<^verbatim>\<open>handleMarkDelivered\<close> is rendered only under
  \<^verbatim>\<open>isSeller\<close>. A press is the viewer (\<^verbatim>\<open>useAuth().user\<close>), the \<^verbatim>\<open>order\<close> prop of the
  modal and the viewer's answer to the confirmation dialog; without the button there is
  nothing to press.
\<close>

record press =
  viewer :: "User option"
  shown :: Order
  answer :: bool

definition press_calls :: "(string \<Rightarrow> unit outcome) \<Rightarrow> press \<Rightarrow> string list" where
  "press_calls markDelivered a =
     (if isSeller (viewer a) (shown a)
      then markDelivered_calls (handleMarkDelivered markDelivered (answer a) (shown a) False)
      else [])"

section \<open>DirectChatModal: the direct conversation (App.tsx, lines 217-342)\<close>

record dm_row =
  dm_id :: string
  sender_id :: string
  receiver_id :: string
  dm_content :: string
  created_at :: string

text \<open>Lines 243-245, with \<^verbatim>\<open>user\<close> the signed-in user and \<^verbatim>\<open>buyer\<close> the other party.\<close>

definition isRelevant :: "User \<Rightarrow> User \<Rightarrow> dm_row \<Rightarrow> bool" where
  "isRelevant user other newMsg =
     ((sender_id newMsg = User_id user \<and> receiver_id newMsg = User_id other) \<or>
      (sender_id newMsg = User_id other \<and> receiver_id newMsg = User_id user))"

text \<open>The insert callback of lines 239-258, applied to the \<^verbatim>\<open>messages\<close> state.\<close>

definition DirectChatModal_on_insert ::
  "User \<Rightarrow> User \<Rightarrow> dm_row \<Rightarrow> DirectMessage list \<Rightarrow> DirectMessage list" where
  "DirectChatModal_on_insert user other newMsg prev =
     (if isRelevant user other newMsg
      then (if sender_id newMsg \<noteq> User_id user
            then prev @ [\<lparr> DirectMessage_id = dm_id newMsg,
                           DirectMessage_senderId = sender_id newMsg,
                           receiverId = receiver_id newMsg,
                           DirectMessage_content = dm_content newMsg,
                           DirectMessage_createdAt = created_at newMsg \<rparr>]
            else prev)
      else prev)"

text \<open>Lines 228-230: \<^verbatim>\<open>if(res.data) setMessages(res.data)\<close>; an array is truthy, also when empty.\<close>

definition DirectChatModal_on_snapshot ::
  "DirectMessage list option \<Rightarrow> DirectMessage list \<Rightarrow> DirectMessage list" where
  "DirectChatModal_on_snapshot res_data prev = (case res_data of None \<Rightarrow> prev | Some ms \<Rightarrow> ms)"

text \<open>
  \<^verbatim>\<open>String.prototype.trim\<close> on a string of bytes: the ASCII white space and line
  terminators (tab, line feed, vertical tab, form feed, carriage return, space).
\<close>

definition js_space :: "char \<Rightarrow> bool" where
  "js_space c = (c \<in> set [CHR 0x09, CHR 0x0A, CHR 0x0B, CHR 0x0C, CHR 0x0D, CHR 0x20])"

definition trim :: "string \<Rightarrow> string" where
  "trim s = rev (dropWhile js_space (rev (dropWhile js_space s)))"

record DirectChat_state =
  messages :: "DirectMessage list"
  newMessage :: string
  sending :: bool

record send_result =
  sendMessage_calls :: "(string \<times> string \<times> string) list"
  onMessageSent_reached :: bool
  console_error :: "string option"
  after_send :: DirectChat_state

text \<open>The object literal of lines 277-283; \<open>rnd\<close> is \<^verbatim>\<open>Math.random().toString()\<close> and \<open>now\<close>
  is \<^verbatim>\<open>new Date().toISOString()\<close>.\<close>

definition optimisticMsg :: "User \<Rightarrow> User \<Rightarrow> string \<Rightarrow> string \<Rightarrow> string \<Rightarrow> DirectMessage" where
  "optimisticMsg user other contentToSend rnd now =
     \<lparr> DirectMessage_id = rnd, DirectMessage_senderId = User_id user,
       receiverId = User_id other, DirectMessage_content = contentToSend,
       DirectMessage_createdAt = now \<rparr>"

text \<open>
  \<^verbatim>\<open>handleSend\<close> of \<^verbatim>\<open>DirectChatModal\<close> (lines 268-294). \<open>sendMessage\<close> is the answer of
  \<^verbatim>\<open>supabaseService.db.directChat.sendMessage\<close>. The append of line 284 is a functional
  state update queued before the \<^verbatim>\<open>await\<close>; after it the handler only clears \<^verbatim>\<open>sending\<close>.
\<close>

definition DirectChatModal_handleSend ::
  "(string \<Rightarrow> string \<Rightarrow> string \<Rightarrow> unit outcome) \<Rightarrow> User option \<Rightarrow> User \<Rightarrow> string \<Rightarrow> string \<Rightarrow>
   DirectChat_state \<Rightarrow> send_result" where
  "DirectChatModal_handleSend sendMessage user other rnd now st =
     (case user of
        None \<Rightarrow> \<lparr> sendMessage_calls = [], onMessageSent_reached = False, console_error = None,
                  after_send = st \<rparr>
      | Some u \<Rightarrow>
          if trim (newMessage st) = []
          then \<lparr> sendMessage_calls = [], onMessageSent_reached = False, console_error = None,
                 after_send = st \<rparr>
          else
            (let contentToSend = newMessage st;
                 st1 = st\<lparr> newMessage := [], sending := True,
                          messages := messages st @ [optimisticMsg u other contentToSend rnd now] \<rparr>;
                 cs = [(User_id u, User_id other, contentToSend)]
             in case sendMessage (User_id u) (User_id other) contentToSend of
                  Returns _ \<Rightarrow>
                    \<lparr> sendMessage_calls = cs, onMessageSent_reached = True, console_error = None,
                      after_send = st1\<lparr>sending := False\<rparr> \<rparr>
                | Throws m \<Rightarrow>
                    \<lparr> sendMessage_calls = cs, onMessageSent_reached = False,
                      console_error = Some m, after_send = st1\<lparr>sending := False\<rparr> \<rparr>))"

text \<open>
  What can happen to an open direct conversation of \<open>user\<close> with \<open>other\<close>: the snapshot
  read resolves, the feed delivers an insert, or the user types a text and submits it.
\<close>

datatype dc_event =
    Snapshot "DirectMessage list option"
  | RemoteInsert dm_row
  | LocalSend string string string "unit outcome"

fun dc_step :: "User \<Rightarrow> User \<Rightarrow> dc_event \<Rightarrow> DirectChat_state \<Rightarrow> DirectChat_state" where
  "dc_step user other (Snapshot res_data) st =
     st\<lparr>messages := DirectChatModal_on_snapshot res_data (messages st)\<rparr>"
| "dc_step user other (RemoteInsert newMsg) st =
     st\<lparr>messages := DirectChatModal_on_insert user other newMsg (messages st)\<rparr>"
| "dc_step user other (LocalSend typed rnd now res) st =
     after_send (DirectChatModal_handleSend (\<lambda>_ _ _. res) (Some user) other rnd now
                   (st\<lparr>newMessage := typed\<rparr>))"

definition dc_run :: "User \<Rightarrow> User \<Rightarrow> dc_event list \<Rightarrow> DirectChat_state \<Rightarrow> DirectChat_state" where
  "dc_run user other evs st = foldl (\<lambda>s e. dc_step user other e s) st evs"

text \<open>A message is between two users when they are its sender and receiver, either way.\<close>

definition between :: "User \<Rightarrow> User \<Rightarrow> DirectMessage \<Rightarrow> bool" where
  "between a b m =
     ((DirectMessage_senderId m = User_id a \<and> receiverId m = User_id b) \<or>
      (DirectMessage_senderId m = User_id b \<and> receiverId m = User_id a))"

section \<open>The record store behind markDelivered\<close>

record record_store =
  orders_tbl :: "string \<rightharpoonup> Order"
  messages_tbl :: "ChatMessage list"

text \<open>
  Modelled from the spec: \<^verbatim>\<open>supabaseService.db.orders.markDelivered\<close> lives in
  \<^verbatim>\<open>./services/supabase\<close>, which is not among the sources. The specification (4.3) gives its
  effect: persist status = delivered for the order, and purge the order's conversation, the
  whole set of the order's messages being deleted (3, OrderMessage).
\<close>

definition markDelivered :: "string \<Rightarrow> record_store \<Rightarrow> record_store" where
  "markDelivered oid s =
     \<lparr> orders_tbl =
         (case orders_tbl s oid of
            None \<Rightarrow> orders_tbl s
          | Some o1 \<Rightarrow> (orders_tbl s)(oid \<mapsto> o1\<lparr>Order_status := delivered\<rparr>)),
       messages_tbl = filter (\<lambda>m. orderId m \<noteq> oid) (messages_tbl s) \<rparr>"

text \<open>A press of the delivery button, as the store sees it, and a sequence of presses.\<close>

definition press_step :: "press \<Rightarrow> record_store \<Rightarrow> record_store" where
  "press_step a s = fold markDelivered (press_calls (\<lambda>_. Returns ()) a) s"

definition press_run :: "press list \<Rightarrow> record_store \<Rightarrow> record_store" where
  "press_run as s = foldl (\<lambda>s a. press_step a s) s as"

text \<open>The status of an order in the store.\<close>

definition status_of :: "record_store \<Rightarrow> string \<Rightarrow> OrderStatus option" where
  "status_of s oid = map_option Order_status (orders_tbl s oid)"


section \<open>Vocabulary of the statements\<close>

subsection \<open>Settlement\<close>


text \<open>
  The store acknowledged the order: the call resolved and the test of line 708,
  \<^verbatim>\<open>error || !order\<close>, is false.
\<close>

definition order_acked :: "OrderRes outcome \<Rightarrow> bool" where
  "order_acked x =
     (case x of Throws _ \<Rightarrow> False
      | Returns r \<Rightarrow> \<not> truthy (OrderRes_error r) \<and> OrderRes_data r \<noteq> None)"


subsection \<open>Order conversation and order lifecycle\<close>

text \<open>The row of a message, as the feed reports it.\<close>

definition row_of :: "ChatMessage \<Rightarrow> message_row" where
  "row_of m = \<lparr> row_id = ChatMessage_id m, row_order_id = orderId m,
     row_sender_id = ChatMessage_senderId m, row_content = ChatMessage_content m,
     row_created_at = ChatMessage_createdAt m \<rparr>"

text \<open>The statuses an order goes through while a sequence of presses is handled.\<close>

fun status_trace :: "string \<Rightarrow> press list \<Rightarrow> record_store \<Rightarrow> OrderStatus option list" where
  "status_trace oid [] s = [status_of s oid]"
| "status_trace oid (a # as) s = status_of s oid # status_trace oid as (press_step a s)"

text \<open>The number of places where a list changes its value.\<close>

fun changes :: "'a list \<Rightarrow> nat" where
  "changes (x # y # zs) = (if x = y then 0 else 1) + changes (y # zs)"
| "changes _ = 0"

subsection \<open>Direct conversation\<close>



text \<open>
  The state of a conversation when it is opened (lines 219-221): \<^verbatim>\<open>useState([])\<close>,
  \<^verbatim>\<open>useState('')\<close>, \<^verbatim>\<open>useState(false)\<close>.
\<close>

definition DirectChat_init :: DirectChat_state where
  "DirectChat_init = \<lparr> messages = [], newMessage = [], sending = False \<rparr>"


text \<open>A snapshot answer carries only messages between the two users.\<close>

fun snapshot_between :: "User \<Rightarrow> User \<Rightarrow> dc_event \<Rightarrow> bool" where
  "snapshot_between a b (Snapshot (Some ms)) = list_all (between a b) ms"
| "snapshot_between a b _ = True"

section \<open>Example values\<close>

definition demo_user :: User where
  "demo_user = \<lparr> User_id = ''u1'', email = ''ana@example.org'', User_name = ''Ana'', role = buyer,
     User_status = active, avatarUrl = None, User_createdAt = ''2024-01-01T00:00:00.000Z'' \<rparr>"

definition demo_seller :: User where
  "demo_seller = \<lparr> User_id = ''u2'', email = ''bia@example.org'', User_name = ''Bia'',
     role = premium, User_status = active, avatarUrl = None,
     User_createdAt = ''2024-01-01T00:00:00.000Z'' \<rparr>"

definition demo_product :: "int \<Rightarrow> Product" where
  "demo_product q = \<lparr> Product_id = ''p1'', title = ''Lamp'', description = ''Desk lamp'',
     Product_price = 5000, imageUrl = ''lamp.png'', imagePath = None, city = ''Recife'',
     pixKey = ''seller@example.org'', pixKeyType = EMAIL, quantity = q, deliveryMethod = pickup,
     Product_sellerId = ''u2'', sellerName = ''Bia'', sellerAvatar = None,
     Product_createdAt = ''2024-01-01T00:00:00.000Z'' \<rparr>"

definition demo_payment :: PaymentData where
  "demo_payment = \<lparr> PaymentData_id = ''pay1'', qrcodeUrl = ''qr.png'', copyPaste = None \<rparr>"

definition demo_state :: "int \<Rightarrow> ProductDetails_state" where
  "demo_state q = \<lparr> product = Some (demo_product q), showPayment = True,
     paymentData = Some demo_payment, verifying = False \<rparr>"

definition demo_order :: Order where
  "demo_order = \<lparr> Order_id = ''o1'', buyerId = ''u1'', buyerName = None, Order_sellerId = ''u2'',
     productId = ''p1'', productTitle = ''Lamp'', Order_price = 5000, shippingAddress = None,
     Order_status = paid, Order_createdAt = ''2024-01-02T00:00:00.000Z'' \<rparr>"

text \<open>Services whose gateway answers the given status and that accept every other call.\<close>

definition sv_status :: "bool \<Rightarrow> string \<Rightarrow> services" where
  "sv_status ok s =
     \<lparr> getPaymentStatus =
         (\<lambda>_. Returns \<lparr> success = ok, StatusRes_data = Some \<lparr> PaymentStatus_status = s \<rparr> \<rparr>),
       orders_create = (\<lambda>_. Returns \<lparr> OrderRes_data = Some demo_order, OrderRes_error = None \<rparr>),
       products_updateStock = (\<lambda>_ _. Returns ()),
       createWithdraw = (\<lambda>_ _ _. Returns ()) \<rparr>"

text \<open>The same with a gateway status of COMPLETED and the given answer to the order creation.\<close>

definition sv_order :: "OrderRes outcome \<Rightarrow> services" where
  "sv_order x = (sv_status True ''COMPLETED'')\<lparr> orders_create := (\<lambda>_. x) \<rparr>"

definition demo_msg :: "string \<Rightarrow> string \<Rightarrow> ChatMessage" where
  "demo_msg i oid = \<lparr> ChatMessage_id = i, orderId = oid, ChatMessage_senderId = ''u2'',
     ChatMessage_content = ''shipped today'', ChatMessage_createdAt = ''2024-01-03T00:00:00.000Z'' \<rparr>"

definition demo_store :: record_store where
  "demo_store = \<lparr> orders_tbl = [''o1'' \<mapsto> demo_order],
                   messages_tbl = [demo_msg ''m1'' ''o1'', demo_msg ''m2'' ''o2''] \<rparr>"


definition stranger_row :: dm_row where
  "stranger_row = \<lparr> dm_id = ''srv-7'', sender_id = ''u3'', receiver_id = ''u1'',
     dm_content = ''psst'', created_at = ''2024-01-05T10:00:02.000Z'' \<rparr>"

definition reply_row :: dm_row where
  "reply_row = \<lparr> dm_id = ''srv-8'', sender_id = ''u2'', receiver_id = ''u1'',
     dm_content = ''hi'', created_at = ''2024-01-05T10:00:03.000Z'' \<rparr>"

definition demo_events :: "dc_event list" where
  "demo_events =
     [Snapshot (Some []),
      LocalSend ''hello'' ''0.42'' ''2024-01-05T10:00:00.000Z'' (Returns ()),
      RemoteInsert stranger_row, RemoteInsert reply_row]"

section \<open>Settlement: what confirmPayment does\<close>

lemma confirm_ok_unfold:
  "paymentData st = Some pd \<Longrightarrow> product st = Some p \<Longrightarrow>
   getPaymentStatus sv (PaymentData_id pd) = Returns r \<Longrightarrow> status_ok r \<Longrightarrow>
   confirmPayment sv (Some u) st = order_step sv st u p [GetPaymentStatus (PaymentData_id pd)]"
  by (simp add: confirmPayment_def)


lemma order_step_failed:
  "\<not> order_acked (orders_create sv (order_draft u p)) \<Longrightarrow>
   \<exists>m. order_step sv st u p cs = caught st (cs @ [OrdersCreate (order_draft u p)]) m"
  by (auto simp: order_step_def order_acked_def Let_def split: outcome.splits)





subsection \<open>The stock write\<close>




subsection \<open>A status outside the success set\<close>

text \<open>
  Claim C2. When the gateway answers with a status that is neither COMPLETED nor ACTIVE,
  the only call the handler issues is the status poll: no order is created, no stock is
  written, no payout is requested. The user is told that the payment is not yet confirmed,
  with the status that was observed, and the handler does not navigate away.
\<close>

theorem confirm_not_paid:
  assumes "paymentData st = Some pd" and "product st = Some p"
    and "getPaymentStatus sv (PaymentData_id pd) = Returns r"
    and "observed_status r = Some s" and "s \<noteq> ''COMPLETED''" and "s \<noteq> ''ACTIVE''"
  shows "calls (confirmPayment sv (Some u) st) = [GetPaymentStatus (PaymentData_id pd)] \<and>
         alerted (confirmPayment sv (Some u) st) = Some (NotYetConfirmed (Some s)) \<and>
         navigated (confirmPayment sv (Some u) st) = None"
  using assms by (simp add: confirmPayment_def status_ok_def)

theorem confirm_not_paid_witness:
  "observed_status \<lparr> success = True, StatusRes_data = Some \<lparr> PaymentStatus_status = ''PENDING'' \<rparr> \<rparr>
     = Some ''PENDING'' \<and>
   calls (confirmPayment (sv_status True ''PENDING'') (Some demo_user) (demo_state 1)) =
     [GetPaymentStatus ''pay1''] \<and>
   alerted (confirmPayment (sv_status True ''PENDING'') (Some demo_user) (demo_state 1)) =
     Some (NotYetConfirmed (Some ''PENDING'')) \<and>
   navigated (confirmPayment (sv_status True ''PENDING'') (Some demo_user) (demo_state 1)) = None"
  using confirm_not_paid [of "demo_state 1" demo_payment "demo_product 1"
     "sv_status True ''PENDING''"
     "\<lparr> success = True, StatusRes_data = Some \<lparr> PaymentStatus_status = ''PENDING'' \<rparr> \<rparr>"
     "''PENDING''" demo_user]
  by (simp add: demo_state_def demo_payment_def sv_status_def observed_status_def)

subsection \<open>A status in the success set\<close>



subsection \<open>A failed order creation\<close>

text \<open>
  Claim C4. When the gateway status is accepted and the creation of the order record fails
  (the call rejects, or answers with an error or without an order), the handler stops after
  the status poll and the order-creation call: the stock write and the payout are not
  issued. The user sees the error alert, there is no navigation, and the component's state
  is what it was with \<^verbatim>\<open>verifying\<close> cleared, so that invoking the handler again behaves,
  for any answers of the services, exactly as invoking it on the original state.
\<close>

theorem confirm_order_failure:
  assumes "paymentData st = Some pd" and "product st = Some p"
    and "getPaymentStatus sv (PaymentData_id pd) = Returns r" and "status_ok r"
    and "\<not> order_acked (orders_create sv (order_draft u p))"
  shows "calls (confirmPayment sv (Some u) st) =
           [GetPaymentStatus (PaymentData_id pd), OrdersCreate (order_draft u p)] \<and>
         (\<exists>m. alerted (confirmPayment sv (Some u) st) = Some (VerifyError m)) \<and>
         navigated (confirmPayment sv (Some u) st) = None \<and>
         after (confirmPayment sv (Some u) st) = st\<lparr>verifying := False\<rparr> \<and>
         (\<forall>sv'. confirmPayment sv' (Some u) (after (confirmPayment sv (Some u) st)) =
                 confirmPayment sv' (Some u) st)"
proof -
  let ?R = "confirmPayment sv (Some u) st"
  have eq: "?R = order_step sv st u p [GetPaymentStatus (PaymentData_id pd)]"
    using confirm_ok_unfold [OF assms(1-4)] .
  obtain m where m:
    "?R = caught st ([GetPaymentStatus (PaymentData_id pd)] @ [OrdersCreate (order_draft u p)]) m"
    using order_step_failed [OF assms(5)] eq by metis
  have aft: "after ?R = st\<lparr>verifying := False\<rparr>"
    using m by (simp add: caught_def)
  have retry: "confirmPayment sv' (Some u) (st\<lparr>verifying := False\<rparr>) = confirmPayment sv' (Some u) st"
    for sv'
    using assms(1,2)
    by (simp add: confirmPayment_def order_step_def stock_step_def withdraw_step_def caught_def
          Let_def split: outcome.splits)
  show ?thesis using m aft retry by (simp add: caught_def)
qed

theorem confirm_order_failure_witness:
  "\<not> order_acked (Returns \<lparr> OrderRes_data = None, OrderRes_error = Some ''insert failed'' \<rparr>) \<and>
   calls (confirmPayment
            (sv_order (Returns \<lparr> OrderRes_data = None, OrderRes_error = Some ''insert failed'' \<rparr>))
            (Some demo_user) (demo_state 1)) =
     [GetPaymentStatus ''pay1'', OrdersCreate (order_draft demo_user (demo_product 1))] \<and>
   after (confirmPayment
            (sv_order (Returns \<lparr> OrderRes_data = None, OrderRes_error = Some ''insert failed'' \<rparr>))
            (Some demo_user) (demo_state 1)) = demo_state 1"
  using confirm_order_failure [of "demo_state 1" demo_payment "demo_product 1"
     "sv_order (Returns \<lparr> OrderRes_data = None, OrderRes_error = Some ''insert failed'' \<rparr>)"
     "\<lparr> success = True, StatusRes_data = Some \<lparr> PaymentStatus_status = ''COMPLETED'' \<rparr> \<rparr>"
     demo_user]
  by (simp add: demo_state_def demo_payment_def sv_order_def sv_status_def
        observed_status_def status_ok_def order_acked_def truthy_def)

section \<open>The order conversation and the order lifecycle\<close>

subsection \<open>Delete events\<close>

lemma feed_deletes:
  "ChatModal_feed (map DELETE rs) log = filter (\<lambda>m. ChatMessage_id m \<notin> row_id ` set rs) log"
proof (induction rs arbitrary: log)
  case Nil
  then show ?case by (simp add: ChatModal_feed_def)
next
  case (Cons r rs)
  have "ChatModal_feed (map DELETE (r # rs)) log =
        ChatModal_feed (map DELETE rs) (ChatModal_on_payload (DELETE r) log)"
    by (simp add: ChatModal_feed_def)
  also have "\<dots> = filter (\<lambda>m. ChatMessage_id m \<notin> row_id ` set rs)
                     (filter (\<lambda>m. ChatMessage_id m \<noteq> row_id r) log)"
    by (simp add: Cons.IH)
  also have "\<dots> = filter (\<lambda>m. ChatMessage_id m \<notin> row_id ` set (r # rs)) log"
    by (auto intro: filter_cong)
  finally show ?case .
qed

text \<open>
  A delete event is not an order-wide purge. A log holds two messages of order o1; the
  feed reports the deletion of the first: the second message of o1 is still in the log.
\<close>

theorem chat_delete_counterexample:
  "of_order ''o1'' (ChatModal_on_payload (DELETE (row_of (demo_msg ''m1'' ''o1'')))
      [demo_msg ''m1'' ''o1'', demo_msg ''m2'' ''o1'']) = [demo_msg ''m2'' ''o1'']"
  by (simp add: of_order_def row_of_def demo_msg_def)

text \<open>
  Claim C6, as amended. Handling a remote delete event removes from the local log exactly
  the messages whose id is the id of the deleted row, and keeps every other message,
  whichever order it belongs to: it is a per-message delete. The log is empty once the
  feed has delivered a delete event for each of its messages, and it holds no message of
  an order once a delete event has been delivered for each message of that order.
\<close>

theorem chat_delete_per_message:
  "(m \<in> set (ChatModal_on_payload (DELETE old) log) \<longleftrightarrow>
      m \<in> set log \<and> ChatMessage_id m \<noteq> row_id old) \<and>
   ChatModal_feed (map DELETE (map row_of log)) log = [] \<and>
   of_order oid (ChatModal_feed (map DELETE (map row_of (of_order oid log))) log) = []"
proof -
  have a: "ChatModal_feed (map DELETE (map row_of log)) log = []"
    unfolding feed_deletes by (auto simp: row_of_def filter_empty_conv image_iff)
  have b: "of_order oid (ChatModal_feed (map DELETE (map row_of (of_order oid log))) log) = []"
    unfolding feed_deletes of_order_def
    by (auto simp: row_of_def filter_empty_conv image_iff)
  show ?thesis using a b by simp
qed

theorem chat_delete_per_message_witness:
  "ChatModal_feed [DELETE (row_of (demo_msg ''m1'' ''o1'')), DELETE (row_of (demo_msg ''m2'' ''o1''))]
     [demo_msg ''m1'' ''o1'', demo_msg ''m2'' ''o1''] = []"
  using chat_delete_per_message [of "demo_msg ''m1'' ''o1''" "row_of (demo_msg ''m1'' ''o1'')"
      "[demo_msg ''m1'' ''o1'', demo_msg ''m2'' ''o1'']" "''o1''"]
  by simp

subsection \<open>The transition to delivered\<close>

lemma press_calls_cases:
  "press_calls md a =
     (if isSeller (viewer a) (shown a) \<and> answer a then [Order_id (shown a)] else [])"
  by (simp add: press_calls_def handleMarkDelivered_def split: outcome.splits)

lemma press_step_cases:
  "press_step a s = (if isSeller (viewer a) (shown a) \<and> answer a
                     then markDelivered (Order_id (shown a)) s else s)"
  by (simp add: press_step_def press_calls_cases)

lemma status_markDelivered:
  "status_of (markDelivered oid' s) oid =
     (if oid = oid' \<and> status_of s oid \<noteq> None then Some delivered else status_of s oid)"
  by (auto simp: status_of_def markDelivered_def split: option.splits)

lemma status_press_step:
  "status_of (press_step a s) oid =
     (if isSeller (viewer a) (shown a) \<and> answer a \<and> Order_id (shown a) = oid \<and>
         status_of s oid \<noteq> None
      then Some delivered else status_of s oid)"
  by (auto simp: press_step_cases status_markDelivered)

lemma delivered_stays:
  "status_of s oid = Some delivered \<Longrightarrow> status_of (press_run as s) oid = Some delivered"
proof (induction as arbitrary: s)
  case Nil
  then show ?case by (simp add: press_run_def)
next
  case (Cons a as)
  have "status_of (press_step a s) oid = Some delivered"
    using Cons.prems by (simp add: status_press_step)
  then have "status_of (press_run as (press_step a s)) oid = Some delivered"
    by (rule Cons.IH)
  then show ?case by (simp add: press_run_def)
qed

lemma changes_cons_trace:
  "changes (x # status_trace oid as s) =
     (if x = status_of s oid then 0 else 1) + changes (status_trace oid as s)"
  by (cases as) simp_all

lemma no_change_after_delivered:
  "status_of s oid = Some delivered \<Longrightarrow> changes (status_trace oid as s) = 0"
proof (induction as arbitrary: s)
  case Nil
  then show ?case by simp
next
  case (Cons a as)
  have d: "status_of (press_step a s) oid = Some delivered"
    using Cons.prems by (simp add: status_press_step)
  show ?case using Cons.IH [OF d] Cons.prems d by (simp add: changes_cons_trace)
qed

lemma changes_at_most_once: "changes (status_trace oid as s) \<le> 1"
proof (induction as arbitrary: s)
  case Nil
  then show ?case by simp
next
  case (Cons a as)
  show ?case
  proof (cases "status_of (press_step a s) oid = status_of s oid")
    case True
    then show ?thesis using Cons.IH [of "press_step a s"] by (simp add: changes_cons_trace)
  next
    case False
    then have "status_of (press_step a s) oid = Some delivered"
      by (simp add: status_press_step split: if_splits)
    then have "changes (status_trace oid as (press_step a s)) = 0"
      by (rule no_change_after_delivered)
    then show ?thesis by (simp add: changes_cons_trace)
  qed
qed

text \<open>
  Claim C7. For every order and every press of the delivery button: if the press changes
  the order's status, the status was paid and is now delivered, the viewer is the seller
  of the order shown and answered the confirmation dialog with yes. Along any sequence of
  presses the status of an order changes at most once, and an order that is delivered stays
  delivered. A confirmed press by the seller on a paid order leaves it delivered and leaves
  the store without any message of that order.
\<close>

theorem order_lifecycle:
  "(status_of (press_step a s) oid \<noteq> status_of s oid \<longrightarrow>
      status_of s oid = Some paid \<and> status_of (press_step a s) oid = Some delivered \<and>
      isSeller (viewer a) (shown a) \<and> answer a \<and> Order_id (shown a) = oid) \<and>
   changes (status_trace oid as s) \<le> 1 \<and>
   (status_of s oid = Some delivered \<longrightarrow> status_of (press_run as s) oid = Some delivered) \<and>
   (isSeller (viewer a) (shown a) \<and> answer a \<and> status_of s (Order_id (shown a)) = Some paid \<longrightarrow>
      status_of (press_step a s) (Order_id (shown a)) = Some delivered \<and>
      of_order (Order_id (shown a)) (messages_tbl (press_step a s)) = [])"
proof -
  have a: "status_of (press_step a s) oid \<noteq> status_of s oid \<longrightarrow>
      status_of s oid = Some paid \<and> status_of (press_step a s) oid = Some delivered \<and>
      isSeller (viewer a) (shown a) \<and> answer a \<and> Order_id (shown a) = oid"
  proof (cases "status_of s oid")
    case None
    then show ?thesis by (simp add: status_press_step)
  next
    case (Some x)
    then show ?thesis by (cases x) (simp_all add: status_press_step)
  qed
  have d: "of_order oid' (messages_tbl (markDelivered oid' s)) = []" for oid'
    by (simp add: of_order_def markDelivered_def filter_empty_conv)
  have e: "isSeller (viewer a) (shown a) \<and> answer a \<and>
           status_of s (Order_id (shown a)) = Some paid \<longrightarrow>
      status_of (press_step a s) (Order_id (shown a)) = Some delivered \<and>
      of_order (Order_id (shown a)) (messages_tbl (press_step a s)) = []"
    using d by (simp add: status_press_step) (simp add: press_step_cases)
  show ?thesis using a changes_at_most_once delivered_stays e by blast
qed

theorem order_lifecycle_witness:
  "isSeller (Some demo_seller) demo_order \<and> status_of demo_store ''o1'' = Some paid \<and>
   status_of (press_step \<lparr> viewer = Some demo_seller, shown = demo_order, answer = True \<rparr>
                demo_store) ''o1'' = Some delivered \<and>
   messages_tbl (press_step \<lparr> viewer = Some demo_seller, shown = demo_order, answer = True \<rparr>
                   demo_store) = [demo_msg ''m2'' ''o2''] \<and>
   status_of (press_step \<lparr> viewer = Some demo_user, shown = demo_order, answer = True \<rparr>
                demo_store) ''o1'' = Some paid \<and>
   status_of (press_step \<lparr> viewer = Some demo_seller, shown = demo_order, answer = False \<rparr>
                demo_store) ''o1'' = Some paid"
  using order_lifecycle [of "\<lparr> viewer = Some demo_seller, shown = demo_order, answer = True \<rparr>"
      demo_store "''o1''" "[]"]
  by (simp add: isSeller_def demo_seller_def demo_user_def demo_order_def demo_store_def
        demo_msg_def status_of_def press_step_cases markDelivered_def of_order_def)

section \<open>The direct conversation\<close>



lemma on_insert_cases:
  "DirectChatModal_on_insert u b r log = log \<or>
   (\<exists>m. DirectChatModal_on_insert u b r log = log @ [m] \<and>
        DirectMessage_senderId m \<noteq> User_id u \<and> between u b m)"
  by (auto simp: DirectChatModal_on_insert_def isRelevant_def between_def)




lemma optimistic_between: "between u b (optimisticMsg u b c rnd now)"
  by (simp add: between_def optimisticMsg_def)

subsection \<open>The optimistic echo and the feed\<close>



subsection \<open>The two parties of a log\<close>

lemma on_insert_between:
  "list_all (between u b) log \<Longrightarrow> list_all (between u b) (DirectChatModal_on_insert u b r log)"
  using on_insert_cases [of u b r log] by auto

lemma handleSend_between:
  "list_all (between u b) (messages st) \<Longrightarrow>
   list_all (between u b)
     (messages (after_send (DirectChatModal_handleSend sm (Some u) b rnd now st)))"
  by (simp add: DirectChatModal_handleSend_def Let_def optimistic_between split: outcome.splits)

lemma dc_step_between:
  assumes "list_all (between u b) (messages st)" and "snapshot_between u b ev"
  shows "list_all (between u b) (messages (dc_step u b ev st))"
proof (cases ev)
  case (Snapshot x)
  then show ?thesis using assms by (cases x) (simp_all add: DirectChatModal_on_snapshot_def)
next
  case (RemoteInsert r)
  then show ?thesis using assms(1) by (simp add: on_insert_between)
next
  case (LocalSend typed rnd now res)
  have "list_all (between u b) (messages (st\<lparr>newMessage := typed\<rparr>))"
    using assms(1) by simp
  then show ?thesis unfolding LocalSend dc_step.simps by (rule handleSend_between)
qed

lemma dc_run_between:
  "list_all (between u b) (messages st) \<Longrightarrow> list_all (snapshot_between u b) evs \<Longrightarrow>
   list_all (between u b) (messages (dc_run u b evs st))"
proof (induction evs arbitrary: st)
  case Nil
  then show ?case by (simp add: dc_run_def)
next
  case (Cons ev evs)
  have "list_all (between u b) (messages (dc_step u b ev st))"
    using Cons.prems by (simp add: dc_step_between)
  moreover have "list_all (snapshot_between u b) evs" using Cons.prems by simp
  ultimately have "list_all (between u b) (messages (dc_run u b evs (dc_step u b ev st)))"
    by (rule Cons.IH)
  then show ?case by (simp add: dc_run_def)
qed

text \<open>
  Claim C8. In the direct conversation of a user with another party, let every message of
  the log be between these two, and let every snapshot answer carry only messages between
  them. Then after any sequence of snapshot answers, remote insert events and local sends
  every message of the log is between the two. An insert event whose sender and receiver
  are not this pair leaves the log as it is, and the message a local send appends is
  between the two.
\<close>

theorem direct_log_pair:
  assumes "list_all (between u b) (messages st)"
    and "list_all (snapshot_between u b) evs"
  shows "list_all (between u b) (messages (dc_run u b evs st)) \<and>
         (\<not> isRelevant u b r \<longrightarrow> DirectChatModal_on_insert u b r log = log) \<and>
         between u b (optimisticMsg u b c rnd now)"
  using dc_run_between [OF assms] optimistic_between
  by (simp add: DirectChatModal_on_insert_def)

theorem direct_log_pair_witness:
  "list_all (between demo_user demo_seller) (messages DirectChat_init) \<and>
   list_all (snapshot_between demo_user demo_seller) demo_events \<and>
   map DirectMessage_id (messages (dc_run demo_user demo_seller demo_events DirectChat_init)) =
     [''0.42'', ''srv-8''] \<and>
   list_all (between demo_user demo_seller)
     (messages (dc_run demo_user demo_seller demo_events DirectChat_init))"
  using direct_log_pair [of demo_user demo_seller DirectChat_init demo_events]
  by (simp add: DirectChat_init_def demo_events_def dc_run_def DirectChatModal_handleSend_def
        DirectChatModal_on_insert_def DirectChatModal_on_snapshot_def isRelevant_def trim_def
        js_space_def stranger_row_def reply_row_def demo_user_def demo_seller_def
        optimisticMsg_def Let_def)

subsection \<open>A failed write\<close>



end
